theory Spec2Isabelle
  imports Complex_Main "HOL-Library.Sublist" "HOL-Library.Multiset" "HOL-Library.Product_Lexorder"
begin

section \<open>Python values\<close>

text \<open>
  The pipeline passes dictionaries of Python values around. A Python \<open>str\<close> is modelled
  as a \<^typ>\<open>string\<close>, a list of code points below 256 (on these, the regular
  expression class \<open>\d\<close> is exactly \<open>0\<close> to \<open>9\<close>). A Python \<open>float\<close> is modelled
  by the exact rational it denotes, or one of the three special values; rounding to
  binary64 is not modelled. A \<open>dict\<close> is an association list in insertion order.
\<close>

datatype pyfloat = NegInf | Finite rat | PosInf | NaN

datatype pyval =
    PNone
  | PBool bool
  | PInt int
  | PFloat pyfloat
  | PStr string
  | PList "pyval list"
  | PDict "(string \<times> pyval) list"

type_synonym pydict = "(string \<times> pyval) list"

datatype error =
    ValueError
  | KeyError
  | TypeError
  | AttributeError
  | OverflowError
  | FileNotFoundError
  | EmptyDataError
  | ParserError
  | RequestException
  | JSONDecodeError

text \<open>Truth value testing, as \<open>not x\<close>, \<open>x or y\<close> and \<open>if x\<close> use it.\<close>

fun truthy :: "pyval \<Rightarrow> bool" where
  "truthy PNone = False"
| "truthy (PBool b) = b"
| "truthy (PInt n) = (n \<noteq> 0)"
| "truthy (PFloat f) = (f \<noteq> Finite 0)"
| "truthy (PStr s) = (s \<noteq> [])"
| "truthy (PList xs) = (xs \<noteq> [])"
| "truthy (PDict kvs) = (kvs \<noteq> [])"

definition py_or :: "pyval \<Rightarrow> pyval \<Rightarrow> pyval" where
  "py_or a b = (if truthy a then a else b)"

fun is_str :: "pyval \<Rightarrow> bool" where
  "is_str (PStr s) = True"
| "is_str v = False"

text \<open>\<open>d.get(k)\<close> and \<open>d.get(k, default)\<close>.\<close>

definition get :: "pydict \<Rightarrow> string \<Rightarrow> pyval" where
  "get d k = (case map_of d k of Some v \<Rightarrow> v | None \<Rightarrow> PNone)"

definition get_default :: "pydict \<Rightarrow> string \<Rightarrow> pyval \<Rightarrow> pyval" where
  "get_default d k dflt = (case map_of d k of Some v \<Rightarrow> v | None \<Rightarrow> dflt)"

text \<open>
  The order in which a sort places floats: \<open>-inf\<close>, the finite values, \<open>inf\<close>, and
  NaN last (the position \<open>sort_values\<close> gives missing keys).
\<close>

fun sort_rank :: "pyfloat \<Rightarrow> nat \<times> rat" where
  "sort_rank NegInf = (0, 0)"
| "sort_rank (Finite q) = (1, q)"
| "sort_rank PosInf = (2, 0)"
| "sort_rank NaN = (3, 0)"

instantiation pyfloat :: linorder
begin

definition less_eq_pyfloat :: "pyfloat \<Rightarrow> pyfloat \<Rightarrow> bool" where
  "less_eq_pyfloat a b = (sort_rank a \<le> sort_rank b)"

definition less_pyfloat :: "pyfloat \<Rightarrow> pyfloat \<Rightarrow> bool" where
  "less_pyfloat a b = (sort_rank a < sort_rank b)"

instance
proof
  fix x y z :: pyfloat
  show "(x < y) = (x \<le> y \<and> \<not> y \<le> x)"
    unfolding less_eq_pyfloat_def less_pyfloat_def by auto
  show "x \<le> x"
    unfolding less_eq_pyfloat_def by simp
  show "x \<le> y \<Longrightarrow> y \<le> z \<Longrightarrow> x \<le> z"
    unfolding less_eq_pyfloat_def by (rule order_trans)
  show "x \<le> y \<Longrightarrow> y \<le> x \<Longrightarrow> x = y"
    unfolding less_eq_pyfloat_def by (cases x; cases y) auto
  show "x \<le> y \<or> y \<le> x"
    unfolding less_eq_pyfloat_def by (rule linear)
qed

end

section \<open>Strings\<close>

text \<open>\<open>s.replace(old, new)\<close>: every non-overlapping occurrence, leftmost first.\<close>

function replace :: "string \<Rightarrow> string \<Rightarrow> string \<Rightarrow> string" where
  "replace old new [] = (if old = [] then new else [])"
| "replace old new (c # cs) =
     (if old = [] then new @ c # replace old new cs
      else if prefix old (c # cs) then new @ replace old new (drop (length old) (c # cs))
      else c # replace old new cs)"
  by pat_completeness auto
termination
  by (relation "measure (\<lambda>(old, new, s). length s)") auto

definition is_digit :: "char \<Rightarrow> bool" where
  "is_digit c = (c \<in> set ''0123456789'')"

definition digit_val :: "char \<Rightarrow> nat" where
  "digit_val c = of_char c - 48"

definition nat_of_digits :: "string \<Rightarrow> nat" where
  "nat_of_digits s = foldl (\<lambda>a c. 10 * a + digit_val c) 0 s"

section \<open>storage.py\<close>

subsection \<open>\<open>_price_to_float\<close>\<close>

text \<open>
  \<open>re.match(r"\d+(?:\.\d+)?", s)\<close>: the longest run of digits at the start of \<open>s\<close>,
  followed, when a dot and at least one digit come next, by the dot and the longest run of
  digits after it.
\<close>

definition match_number :: "string \<Rightarrow> string option" where
  "match_number s =
     (let ds = takeWhile is_digit s; rest = dropWhile is_digit s in
      if ds = [] then None
      else (case rest of
              [] \<Rightarrow> Some ds
            | c # rest' \<Rightarrow>
                if c = CHR ''.'' \<and> takeWhile is_digit rest' \<noteq> []
                then Some (ds @ CHR ''.'' # takeWhile is_digit rest')
                else Some ds))"

text \<open>\<open>re.search\<close>: the match at the leftmost position that has one.\<close>

fun re_search_number :: "string \<Rightarrow> string option" where
  "re_search_number [] = None"
| "re_search_number (c # cs) =
     (case match_number (c # cs) of
        Some m \<Rightarrow> Some m
      | None \<Rightarrow> re_search_number cs)"

text \<open>\<open>float(m.group(0))\<close> on a matched text \<open>digits\<close> or \<open>digits.digits\<close>.\<close>

definition float_of_match :: "string \<Rightarrow> pyfloat" where
  "float_of_match m =
     (let ip = takeWhile is_digit m; fp = drop (Suc (length ip)) m in
      Finite (of_nat (nat_of_digits ip) + of_nat (nat_of_digits fp) / 10 ^ length fp))"

definition price_to_float :: "pyval \<Rightarrow> pyfloat" where
  "price_to_float preco =
     (if \<not> truthy preco \<or> \<not> is_str preco then PosInf
      else (case preco of
              PStr s \<Rightarrow>
                (let text = replace '','' ''.'' (replace ''.'' '''' (replace '' '' '''' (replace ''R$'' '''' s)))
                 in case re_search_number text of
                      Some m \<Rightarrow> float_of_match m
                    | None \<Rightarrow> PosInf)
            | _ \<Rightarrow> PosInf))"

subsection \<open>The delimited file and the data frame\<close>

text \<open>
  The functions of this module call pandas for the file format. A delimited file is
  modelled after tokenising: a header of column names and data rows of text cells, the
  header names distinct as \<open>to_csv\<close> writes them. What pandas does with the cells under
  the defaults the source uses is modelled below: \<open>to_csv\<close> writes a missing value as
  the empty cell; \<open>read_csv\<close> reads the default missing-value tokens as NaN and converts
  a column whose cells are all integers, all numbers or all booleans.
\<close>

record csv_file =
  header :: "string list"
  body :: "string list list"

type_synonym fs = "string \<rightharpoonup> csv_file"

record dataframe =
  columns :: "string list"
  rows :: "pyval list list"

text \<open>\<open>str(n)\<close> for an integer.\<close>

function digits_of_nat :: "nat \<Rightarrow> string" where
  "digits_of_nat n =
     (if n < 10 then [char_of (48 + n)]
      else digits_of_nat (n div 10) @ [char_of (48 + n mod 10)])"
  by pat_completeness auto
termination
  by (relation "measure id") auto

declare digits_of_nat.simps [simp del]

definition str_of_int :: "int \<Rightarrow> string" where
  "str_of_int n = (if n < 0 then CHR ''-'' # digits_of_nat (nat (- n)) else digits_of_nat (nat n))"

text \<open>
  \<open>str(v)\<close>. The text of a finite float and of a container is not modelled: \<open>repr\<close>
  stands for it.
\<close>

definition py_str :: "(pyval \<Rightarrow> string) \<Rightarrow> pyval \<Rightarrow> string" where
  "py_str repr v =
     (case v of
        PStr s \<Rightarrow> s
      | PNone \<Rightarrow> ''None''
      | PBool b \<Rightarrow> (if b then ''True'' else ''False'')
      | PInt n \<Rightarrow> str_of_int n
      | PFloat NaN \<Rightarrow> ''nan''
      | PFloat PosInf \<Rightarrow> ''inf''
      | PFloat NegInf \<Rightarrow> ''-inf''
      | _ \<Rightarrow> repr v)"

text \<open>
  \<open>pd.DataFrame(items)\<close> for a list of dicts: the columns are the keys in the order
  they first appear, a key a dict lacks is NaN in its row.
\<close>

fun first_seen :: "string list \<Rightarrow> string list \<Rightarrow> string list" where
  "first_seen seen [] = rev seen"
| "first_seen seen (k # ks) = (if k \<in> set seen then first_seen seen ks else first_seen (k # seen) ks)"

definition DataFrame :: "pydict list \<Rightarrow> dataframe" where
  "DataFrame items =
     (let cols = first_seen [] (concat (map (map fst) items)) in
      \<lparr>columns = cols,
       rows = map (\<lambda>d. map (\<lambda>c. get_default d c (PFloat NaN)) cols) items\<rparr>)"

text \<open>\<open>df.to_csv(filepath, index=False)\<close>: the header row, then one row of cell texts per record.\<close>

definition csv_cell :: "(pyval \<Rightarrow> string) \<Rightarrow> pyval \<Rightarrow> string" where
  "csv_cell repr v = (case v of PNone \<Rightarrow> [] | PFloat NaN \<Rightarrow> [] | _ \<Rightarrow> py_str repr v)"

definition to_csv :: "(pyval \<Rightarrow> string) \<Rightarrow> dataframe \<Rightarrow> csv_file" where
  "to_csv repr df = \<lparr>header = columns df, body = map (map (csv_cell repr)) (rows df)\<rparr>"

subsection \<open>\<open>save_to_csv\<close>\<close>

definition save_to_csv ::
  "(pyval \<Rightarrow> string) \<Rightarrow> pydict list \<Rightarrow> string \<Rightarrow> fs \<Rightarrow> (error + unit) \<times> fs" where
  "save_to_csv repr items filepath files =
     (if items = [] then (Inl ValueError, files)
      else (Inr (), files(filepath \<mapsto> to_csv repr (DataFrame items))))"

subsection \<open>\<open>pd.read_csv\<close>\<close>

text \<open>The tokens \<open>read_csv\<close> reads as a missing value by default.\<close>

definition na_values :: "string list" where
  "na_values =
     ['''', ''#N/A'', ''#N/A N/A'', ''#NA'', ''-1.#IND'', ''-1.#QNAN'', ''-NaN'', ''-nan'',
      ''1.#IND'', ''1.#QNAN'', ''<NA>'', ''N/A'', ''NA'', ''NULL'', ''NaN'', ''None'',
      ''n/a'', ''nan'', ''null'']"

definition is_na :: "string \<Rightarrow> bool" where
  "is_na s = (s \<in> set na_values)"

definition c_isspace :: "char \<Rightarrow> bool" where
  "c_isspace c = (of_char c \<in> {9, 10, 11, 12, 13, 32 :: nat})"

definition c_strip :: "string \<Rightarrow> string" where
  "c_strip s = rev (dropWhile c_isspace (rev (dropWhile c_isspace s)))"

text \<open>An optional sign: whether it is a minus, and the text after it.\<close>

fun split_sign :: "string \<Rightarrow> bool \<times> string" where
  "split_sign [] = (False, [])"
| "split_sign (c # cs) =
     (if c = CHR ''-'' then (True, cs) else if c = CHR ''+'' then (False, cs) else (False, c # cs))"

definition all_digits :: "string \<Rightarrow> bool" where
  "all_digits s = list_all is_digit s"

definition parse_int :: "string \<Rightarrow> int option" where
  "parse_int s =
     (let (neg, ds) = split_sign (c_strip s) in
      if ds \<noteq> [] \<and> all_digits ds
      then Some (if neg then - int (nat_of_digits ds) else int (nat_of_digits ds))
      else None)"

text \<open>
  A decimal number: digits with an optional fraction (at least one digit in all), then an
  optional exponent; or an infinity, in any letter case.
\<close>

definition parse_exponent :: "string \<Rightarrow> int option" where
  "parse_exponent s =
     (case s of
        [] \<Rightarrow> Some 0
      | c # cs \<Rightarrow>
          if c = CHR ''e'' \<or> c = CHR ''E'' then
            (let (neg, ds) = split_sign cs in
             if ds \<noteq> [] \<and> all_digits ds
             then Some (if neg then - int (nat_of_digits ds) else int (nat_of_digits ds))
             else None)
          else None)"

definition parse_mantissa :: "string \<Rightarrow> (rat \<times> string) option" where
  "parse_mantissa s =
     (let ip = takeWhile is_digit s; r = dropWhile is_digit s;
          fp = (if take 1 r = ''.'' then takeWhile is_digit (drop 1 r) else []);
          r' = (if take 1 r = ''.'' then dropWhile is_digit (drop 1 r) else r)
      in if ip = [] \<and> fp = [] then None
         else Some (of_nat (nat_of_digits ip) + of_nat (nat_of_digits fp) / 10 ^ length fp, r'))"

definition lower :: "string \<Rightarrow> string" where
  "lower s =
     map (\<lambda>c. if 65 \<le> (of_char c :: nat) \<and> (of_char c :: nat) \<le> 90
               then char_of (of_char c + (32::nat)) else c) s"

definition parse_float :: "string \<Rightarrow> pyfloat option" where
  "parse_float s =
     (if lower s \<in> set [''inf'', ''+inf'', ''infinity'', ''+infinity''] then Some PosInf
      else if lower s \<in> set [''-inf'', ''-infinity''] then Some NegInf
      else
        (let (neg, t) = split_sign (c_strip s) in
         case parse_mantissa t of
           None \<Rightarrow> None
         | Some (m, r) \<Rightarrow>
             (case parse_exponent r of
                None \<Rightarrow> None
              | Some e \<Rightarrow>
                  (let v = (if e < 0 then m / 10 ^ nat (- e) else m * 10 ^ nat e)
                   in Some (Finite (if neg then - v else v))))))"

definition parse_bool :: "string \<Rightarrow> bool option" where
  "parse_bool s =
     (if s \<in> set [''True'', ''TRUE'', ''true''] then Some True
      else if s \<in> set [''False'', ''FALSE'', ''false''] then Some False
      else None)"

definition fits_int64 :: "int \<Rightarrow> bool" where
  "fits_int64 n = (- (2 ^ 63) \<le> n \<and> n < 2 ^ 63)"

definition fits_uint64 :: "int \<Rightarrow> bool" where
  "fits_uint64 n = (0 \<le> n \<and> n < 2 ^ 64)"

definition int_column :: "string list \<Rightarrow> bool" where
  "int_column toks =
     (list_all (\<lambda>s. case parse_int s of Some n \<Rightarrow> fits_int64 n | None \<Rightarrow> False) toks \<or>
      list_all (\<lambda>s. case parse_int s of Some n \<Rightarrow> fits_uint64 n | None \<Rightarrow> False) toks)"

definition float_column :: "string list \<Rightarrow> bool" where
  "float_column toks = list_all (\<lambda>s. parse_float s \<noteq> None) toks"

definition bool_column :: "string list \<Rightarrow> bool" where
  "bool_column toks = list_all (\<lambda>s. parse_bool s \<noteq> None) toks"

text \<open>
  The conversion of one column, tried in the order integer, float, boolean, text, on the
  cells that are not missing; a missing cell is NaN, which turns an integer column into a
  float column.
\<close>

definition convert_column :: "string list \<Rightarrow> pyval list" where
  "convert_column col =
     (let toks = filter (\<lambda>s. \<not> is_na s) col in
      if int_column toks then
        map (\<lambda>s. if is_na s then PFloat NaN
                 else case parse_int s of
                        Some n \<Rightarrow> (if toks = col then PInt n else PFloat (Finite (of_int n)))
                      | None \<Rightarrow> PFloat NaN) col
      else if float_column toks then
        map (\<lambda>s. if is_na s then PFloat NaN
                 else case parse_float s of Some f \<Rightarrow> PFloat f | None \<Rightarrow> PFloat NaN) col
      else if bool_column toks then
        map (\<lambda>s. if is_na s then PFloat NaN
                 else case parse_bool s of Some b \<Rightarrow> PBool b | None \<Rightarrow> PFloat NaN) col
      else map (\<lambda>s. if is_na s then PFloat NaN else PStr s) col)"

definition pad_row :: "nat \<Rightarrow> string list \<Rightarrow> string list" where
  "pad_row n r = r @ replicate (n - length r) []"

text \<open>The cells of a table converted column by column and put back into rows.\<close>

definition convert_cells :: "nat \<Rightarrow> string list list \<Rightarrow> pyval list list" where
  "convert_cells n cells =
     (let cols = map (\<lambda>j. convert_column (map (\<lambda>r. r ! j) cells)) [0..<n]
      in map (\<lambda>i. map (\<lambda>c. c ! i) cols) [0..<length cells])"

definition read_csv :: "fs \<Rightarrow> string \<Rightarrow> error + dataframe" where
  "read_csv files filepath =
     (case files filepath of
        None \<Rightarrow> Inl FileNotFoundError
      | Some f \<Rightarrow>
          if header f = [] then Inl EmptyDataError
          else if list_ex (\<lambda>r. length (header f) < length r) (body f) then Inl ParserError
          else Inr \<lparr>columns = header f,
                   rows = convert_cells (length (header f))
                            (map (pad_row (length (header f))) (body f))\<rparr>)"

subsection \<open>\<open>load_and_sort_by_price\<close>\<close>

text \<open>\<open>df[name]\<close>, \<open>df[name] = values\<close>, \<open>df.drop(columns=[name])\<close>, \<open>df.to_dict(orient="records")\<close>.\<close>

definition column_index :: "dataframe \<Rightarrow> string \<Rightarrow> nat option" where
  "column_index df name =
     (if name \<in> set (columns df) then Some (length (takeWhile (\<lambda>c. c \<noteq> name) (columns df)))
      else None)"

definition get_column :: "dataframe \<Rightarrow> string \<Rightarrow> error + pyval list" where
  "get_column df name =
     (case column_index df name of
        None \<Rightarrow> Inl KeyError
      | Some j \<Rightarrow> Inr (map (\<lambda>r. r ! j) (rows df)))"

definition set_column :: "dataframe \<Rightarrow> string \<Rightarrow> pyval list \<Rightarrow> dataframe" where
  "set_column df name vals =
     (case column_index df name of
        Some j \<Rightarrow> df\<lparr>rows := map (\<lambda>(r, v). r[j := v]) (zip (rows df) vals)\<rparr>
      | None \<Rightarrow> \<lparr>columns = columns df @ [name],
                  rows = map (\<lambda>(r, v). r @ [v]) (zip (rows df) vals)\<rparr>)"

definition drop_column :: "dataframe \<Rightarrow> string \<Rightarrow> dataframe" where
  "drop_column df name =
     (case column_index df name of
        None \<Rightarrow> df
      | Some j \<Rightarrow> \<lparr>columns = take j (columns df) @ drop (Suc j) (columns df),
                    rows = map (\<lambda>r. take j r @ drop (Suc j) r) (rows df)\<rparr>)"

definition to_dict_records :: "dataframe \<Rightarrow> pydict list" where
  "to_dict_records df = map (\<lambda>r. zip (columns df) r) (rows df)"

text \<open>
  \<open>df.sort_values(name, ascending=True)\<close> argsorts the key column and takes the rows in
  that order. The source passes no \<open>kind\<close>, so the algorithm is the library's default,
  \<open>quicksort\<close>; \<open>argsort\<close> stands for it: from the keys to the row numbers in output order.
  The key column here holds the floats \<open>_price_to_float\<close> returned.
\<close>

fun as_float :: "pyval \<Rightarrow> pyfloat" where
  "as_float (PFloat f) = f"
| "as_float (PInt n) = Finite (of_int n)"
| "as_float v = NaN"

definition sort_values ::
  "(pyfloat list \<Rightarrow> nat list) \<Rightarrow> dataframe \<Rightarrow> string \<Rightarrow> error + dataframe" where
  "sort_values argsort df name =
     (case get_column df name of
        Inl e \<Rightarrow> Inl e
      | Inr keys \<Rightarrow> Inr (df\<lparr>rows := map (\<lambda>i. rows df ! i) (argsort (map as_float keys))\<rparr>))"

definition load_and_sort_by_price ::
  "(pyfloat list \<Rightarrow> nat list) \<Rightarrow> fs \<Rightarrow> string \<Rightarrow> error + pydict list" where
  "load_and_sort_by_price argsort files filepath =
     (case read_csv files filepath of
        Inl e \<Rightarrow> Inl e
      | Inr df \<Rightarrow>
          (case get_column df ''preco'' of
             Inl e \<Rightarrow> Inl e
           | Inr precos \<Rightarrow>
               (let df1 = set_column df ''preco_num'' (map (\<lambda>p. PFloat (price_to_float p)) precos)
                in case sort_values argsort df1 ''preco_num'' of
                     Inl e \<Rightarrow> Inl e
                   | Inr df_sorted \<Rightarrow> Inr (to_dict_records (drop_column df_sorted ''preco_num'')))))"

section \<open>download\_images.py\<close>

subsection \<open>\<open>_slugify\<close>\<close>

text \<open>The characters of the class \<open>[a-zA-Z0-9_-]\<close>.\<close>

definition slug_char :: "char \<Rightarrow> bool" where
  "slug_char c =
     (let n = (of_char c :: nat) in
      (97 \<le> n \<and> n \<le> 122) \<or> (65 \<le> n \<and> n \<le> 90) \<or> (48 \<le> n \<and> n \<le> 57) \<or>
      c = CHR ''_'' \<or> c = CHR ''-'')"

text \<open>\<open>re.sub(r"[^a-zA-Z0-9_-]+", "_", name)\<close>: each maximal run outside the class becomes one underscore.\<close>

function re_sub_runs :: "string \<Rightarrow> string" where
  "re_sub_runs [] = []"
| "re_sub_runs (c # cs) =
     (if slug_char c then c # re_sub_runs cs
      else CHR ''_'' # re_sub_runs (dropWhile (\<lambda>x. \<not> slug_char x) cs))"
  by pat_completeness auto
termination
  by (relation "measure length") (auto simp: length_dropWhile_le less_Suc_eq_le)

text \<open>\<open>s.strip("_")\<close>.\<close>

definition strip_underscores :: "string \<Rightarrow> string" where
  "strip_underscores s =
     rev (dropWhile (\<lambda>c. c = CHR ''_'') (rev (dropWhile (\<lambda>c. c = CHR ''_'') s)))"

definition slugify :: "string \<Rightarrow> nat \<Rightarrow> string" where
  "slugify name maxlen =
     (let base = strip_underscores (re_sub_runs name);
          base = (if base \<noteq> [] then base else ''imagem'')
      in take maxlen base)"

subsection \<open>\<open>download_images\<close>\<close>

text \<open>
  The world the function acts on: the files of the disk as bytes, the directories made,
  and the image requests sent so far, oldest first. \<open>http\<close> is the network: given the
  requests already sent and a URL, the outcome of \<open>requests.get\<close>, an exception or a
  status code with the body. The pause after a download is not modelled.
\<close>

record world =
  disk :: "string \<rightharpoonup> string"
  dirs :: "string set"
  sent :: "string list"

type_synonym http = "string list \<Rightarrow> string \<Rightarrow> error + nat \<times> string"

text \<open>\<open>os.path.join(directory, filename)\<close>.\<close>

definition path_join :: "string \<Rightarrow> string \<Rightarrow> string" where
  "path_join d f =
     (if take 1 f = ''/'' then f
      else if d = [] \<or> last d = CHR ''/'' then d @ f
      else d @ ''/'' @ f)"

text \<open>The file name of the record at 1-based position \<open>idx\<close>; a title that is not text makes \<open>re.sub\<close> raise.\<close>

definition image_filename :: "nat \<Rightarrow> pydict \<Rightarrow> error + string" where
  "image_filename idx item =
     (case py_or (get item ''titulo'') (PStr (''produto_'' @ digits_of_nat idx)) of
        PStr title \<Rightarrow> Inr (slugify title 60 @ ''.jpg'')
      | _ \<Rightarrow> Inl TypeError)"

text \<open>\<open>resp.raise_for_status()\<close> raises on the status codes 400 to 599.\<close>

definition raise_for_status :: "nat \<Rightarrow> bool" where
  "raise_for_status status = (400 \<le> status \<and> status < 600)"

text \<open>One turn of the loop.\<close>

definition download_item :: "http \<Rightarrow> string \<Rightarrow> nat \<Rightarrow> pydict \<Rightarrow> world \<Rightarrow> error + world" where
  "download_item net directory idx item w =
     (let image_url = py_or (get item ''imagem'') (PStr '''') in
      case image_filename idx item of
        Inl e \<Rightarrow> Inl e
      | Inr filename \<Rightarrow>
          (let filepath = path_join directory filename in
           if \<not> truthy image_url then Inr (w\<lparr>disk := (disk w)(filepath \<mapsto> [])\<rparr>)
           else
             (case image_url of
                PStr u \<Rightarrow>
                  (let w' = w\<lparr>sent := sent w @ [u]\<rparr> in
                   case net (sent w) u of
                     Inl e \<Rightarrow> Inr (w'\<lparr>disk := (disk w')(filepath \<mapsto> [])\<rparr>)
                   | Inr (status, content) \<Rightarrow>
                       if raise_for_status status
                       then Inr (w'\<lparr>disk := (disk w')(filepath \<mapsto> [])\<rparr>)
                       else Inr (w'\<lparr>disk := (disk w')(filepath \<mapsto> content)\<rparr>))
              | _ \<Rightarrow> Inr (w\<lparr>disk := (disk w)(filepath \<mapsto> [])\<rparr>))))"

text \<open>The loop over \<open>enumerate(items, 1)\<close>, from position \<open>idx\<close> on; an exception ends it.\<close>

fun download_loop :: "http \<Rightarrow> string \<Rightarrow> nat \<Rightarrow> pydict list \<Rightarrow> world \<Rightarrow> error + world" where
  "download_loop net directory idx [] w = Inr w"
| "download_loop net directory idx (item # items) w =
     (case download_item net directory idx item w of
        Inl e \<Rightarrow> Inl e
      | Inr w' \<Rightarrow> download_loop net directory (Suc idx) items w')"

definition download_images :: "http \<Rightarrow> pydict list \<Rightarrow> string \<Rightarrow> world \<Rightarrow> error + world" where
  "download_images net items directory w =
     download_loop net directory 1 items (w\<lparr>dirs := insert directory (dirs w)\<rparr>)"

section \<open>scraper.py\<close>

subsection \<open>\<open>_sample_data\<close>\<close>

definition exemplos :: "pydict list" where
  "exemplos =
     [[(''titulo'', PStr ''Geladeira Consul Frost Free 340 litros''),
       (''preco'', PStr ''R$ 1.899,00''),
       (''url'', PStr ''https://www.lojaexemplo.com/produto2''),
       (''loja'', PStr ''Loja Exemplo 2''),
       (''imagem'', PStr ''https://via.placeholder.com/150?text=Produto2'')],
      [(''titulo'', PStr ''Geladeira Brastemp Frost Free Duplex 375 litros''),
       (''preco'', PStr ''R$ 2.199,00''),
       (''url'', PStr ''https://www.lojaexemplo.com/produto1''),
       (''loja'', PStr ''Loja Exemplo 1''),
       (''imagem'', PStr ''https://via.placeholder.com/150?text=Produto1'')],
      [(''titulo'', PStr ''Geladeira Electrolux Frost Free Inverse 454 litros''),
       (''preco'', PStr ''R$ 3.299,00''),
       (''url'', PStr ''https://www.lojaexemplo.com/produto3''),
       (''loja'', PStr ''Loja Exemplo 3''),
       (''imagem'', PStr ''https://via.placeholder.com/150?text=Produto3'')],
      [(''titulo'', PStr ''Geladeira Samsung Side by Side 501 litros''),
       (''preco'', PStr ''R$ 4.499,00''),
       (''url'', PStr ''https://www.lojaexemplo.com/produto4''),
       (''loja'', PStr ''Loja Exemplo 4''),
       (''imagem'', PStr ''https://via.placeholder.com/150?text=Produto4'')],
      [(''titulo'', PStr ''Geladeira LG Smart Inverter 437 litros''),
       (''preco'', PStr ''R$ 3.999,00''),
       (''url'', PStr ''https://www.lojaexemplo.com/produto5''),
       (''loja'', PStr ''Loja Exemplo 5''),
       (''imagem'', PStr ''https://via.placeholder.com/150?text=Produto5'')]]"

text \<open>The loop \<open>for i in range(5): for item in exemplos: dados.append(item.copy())\<close>.\<close>

fun repeat_extend :: "nat \<Rightarrow> 'a list \<Rightarrow> 'a list \<Rightarrow> 'a list" where
  "repeat_extend 0 xs dados = dados"
| "repeat_extend (Suc i) xs dados = repeat_extend i xs (dados @ xs)"

definition sample_data :: "pydict list" where
  "sample_data = repeat_extend 5 exemplos []"

subsection \<open>\<open>fetch_ads\<close>\<close>

text \<open>\<open>s.strip()\<close>: the white space among the code points below 256.\<close>

definition py_isspace :: "char \<Rightarrow> bool" where
  "py_isspace c =
     (let n = (of_char c :: nat) in
      (9 \<le> n \<and> n \<le> 13) \<or> (28 \<le> n \<and> n \<le> 32) \<or> n = 133 \<or> n = 160)"

definition py_strip :: "string \<Rightarrow> string" where
  "py_strip s = rev (dropWhile py_isspace (rev (dropWhile py_isspace s)))"

text \<open>
  The module constant \<open>SERPAPI_KEY = os.getenv("SERPAPI_KEY", "").strip()\<close>, from the
  value of the environment variable, if set.
\<close>

definition SERPAPI_KEY :: "string option \<Rightarrow> string" where
  "SERPAPI_KEY env = py_strip (case env of None \<Rightarrow> [] | Some v \<Rightarrow> v)"

text \<open>
  The format \<open>f"{preco:,.2f}"\<close>. An integer is converted to a float first: to the
  nearest float of 53 bits, ties to even, with \<open>OverflowError\<close> beyond the largest float.
  The digits are those of the exact value rounded to two decimals, ties to even, with a
  comma every three digits of the integer part.
\<close>

function bit_length :: "nat \<Rightarrow> nat" where
  "bit_length n = (if n = 0 then 0 else Suc (bit_length (n div 2)))"
  by pat_completeness auto
termination
  by (relation "measure id") auto

declare bit_length.simps [simp del]

definition int_to_float :: "int \<Rightarrow> error + rat" where
  "int_to_float n =
     (let a = nat \<bar>n\<bar>; k = bit_length a in
      if k \<le> 53 then Inr (of_int n)
      else
        (let sh = k - 53; m = a div 2 ^ sh; r = a mod 2 ^ sh; half = 2 ^ (sh - 1);
             m' = (if half < r \<or> (r = half \<and> odd m) then m + 1 else m);
             v = m' * 2 ^ sh
         in if 2 ^ 1024 \<le> v then Inl OverflowError
            else Inr (if n < 0 then - of_nat v else of_nat v)))"

definition round_half_even :: "rat \<Rightarrow> int" where
  "round_half_even q =
     (let f = \<lfloor>q\<rfloor>; d = q - of_int f in
      if d < 1 / 2 then f else if 1 / 2 < d then f + 1 else if even f then f else f + 1)"

function group_thousands :: "string \<Rightarrow> string" where
  "group_thousands ds =
     (if length ds \<le> 3 then ds
      else group_thousands (take (length ds - 3) ds) @ '','' @ drop (length ds - 3) ds)"
  by pat_completeness auto
termination
  by (relation "measure length") auto

declare group_thousands.simps [simp del]

definition two_digits :: "nat \<Rightarrow> string" where
  "two_digits n = [char_of (48 + n div 10), char_of (48 + n mod 10)]"

definition format_fixed2 :: "rat \<Rightarrow> string" where
  "format_fixed2 q =
     (let cents = nat (round_half_even (\<bar>q\<bar> * 100)) in
      (if q < 0 then ''-'' else '''') @
      group_thousands (digits_of_nat (cents div 100)) @ ''.'' @ two_digits (cents mod 100))"

definition format_float :: "pyfloat \<Rightarrow> string" where
  "format_float f =
     (case f of
        Finite q \<Rightarrow> format_fixed2 q
      | PosInf \<Rightarrow> ''inf''
      | NegInf \<Rightarrow> ''-inf''
      | NaN \<Rightarrow> ''nan'')"

text \<open>
  \<open>f"R$ {preco:,.2f}".replace(",", "X").replace(".", ",").replace("X", ".")\<close> when
  \<open>isinstance(preco, (int, float))\<close>, which holds of a \<open>bool\<close> too; \<open>str(preco)\<close> otherwise.
\<close>

definition preco_str :: "(pyval \<Rightarrow> string) \<Rightarrow> pyval \<Rightarrow> error + string" where
  "preco_str repr preco =
     (let swap = (\<lambda>s. replace ''X'' ''.'' (replace ''.'' '','' (replace '','' ''X'' s))) in
      case preco of
        PInt n \<Rightarrow>
          (case int_to_float n of
             Inl e \<Rightarrow> Inl e
           | Inr q \<Rightarrow> Inr (swap (''R$ '' @ format_fixed2 q)))
      | PBool b \<Rightarrow> Inr (swap (''R$ '' @ format_fixed2 (if b then 1 else 0)))
      | PFloat f \<Rightarrow> Inr (swap (''R$ '' @ format_float f))
      | _ \<Rightarrow> Inr (py_str repr preco))"

text \<open>The body of the loop over the results: \<open>obj.get\<close> raises unless \<open>obj\<close> is a dict.\<close>

definition map_result :: "(pyval \<Rightarrow> string) \<Rightarrow> pyval \<Rightarrow> error + pydict" where
  "map_result repr obj =
     (case obj of
        PDict d \<Rightarrow>
          (let titulo = get_default d ''title'' (PStr '''');
               preco = py_or (py_or (get d ''price'') (get d ''extracted_price'')) (PStr '''')
           in case preco_str repr preco of
                Inl e \<Rightarrow> Inl e
              | Inr ps \<Rightarrow>
                  Inr [(''titulo'', titulo),
                       (''preco'', PStr ps),
                       (''url'', py_or (py_or (get d ''product_link'') (get d ''link'')) (PStr '''')),
                       (''loja'', py_or (py_or (get d ''source'') (get d ''merchant'')) (PStr '''')),
                       (''imagem'', py_or (py_or (get d ''thumbnail'') (get d ''image'')) (PStr ''''))])
      | _ \<Rightarrow> Inl AttributeError)"

fun map_results :: "(pyval \<Rightarrow> string) \<Rightarrow> pyval list \<Rightarrow> error + pydict list" where
  "map_results repr [] = Inr []"
| "map_results repr (obj # objs) =
     (case map_result repr obj of
        Inl e \<Rightarrow> Inl e
      | Inr a \<Rightarrow>
          (case map_results repr objs of
             Inl e \<Rightarrow> Inl e
           | Inr anuncios \<Rightarrow> Inr (a # anuncios)))"

text \<open>
  \<open>for obj in results\<close>: a list gives its elements, a dict its keys, a text its
  characters; anything else is not iterable.
\<close>

definition iterate :: "pyval \<Rightarrow> error + pyval list" where
  "iterate v =
     (case v of
        PList xs \<Rightarrow> Inr xs
      | PDict kvs \<Rightarrow> Inr (map (\<lambda>(k, x). PStr k) kvs)
      | PStr s \<Rightarrow> Inr (map (\<lambda>c. PStr [c]) s)
      | _ \<Rightarrow> Inl TypeError)"

text \<open>
  The statements of the \<open>try\<close> block. \<open>api\<close> is the search service: given the query
  parameters, the outcome of the request, an exception or a status code with the decoded
  JSON body (\<open>None\<close> when the body does not decode).
\<close>

type_synonym api = "(string \<times> string) list \<Rightarrow> error + nat \<times> pyval option"

definition fetch_try :: "(pyval \<Rightarrow> string) \<Rightarrow> api \<Rightarrow> (string \<times> string) list \<Rightarrow> error + pydict list" where
  "fetch_try repr service params =
     (case service params of
        Inl e \<Rightarrow> Inl e
      | Inr (status, payload) \<Rightarrow>
          if raise_for_status status then Inl RequestException
          else
            (case payload of
               None \<Rightarrow> Inl JSONDecodeError
             | Some (PDict data) \<Rightarrow>
                 (case iterate (get_default data ''shopping_results'' (PList [])) of
                    Inl e \<Rightarrow> Inl e
                  | Inr results \<Rightarrow>
                      (case map_results repr results of
                         Inl e \<Rightarrow> Inl e
                       | Inr anuncios \<Rightarrow> Inr (if anuncios = [] then sample_data else anuncios)))
             | Some _ \<Rightarrow> Inl AttributeError))"

text \<open>
  \<open>fetch_ads(term, api_key)\<close>, with the environment variable and the service as
  parameters. The result is the list of records and the list of requests sent.
\<close>

definition fetch_ads ::
  "(pyval \<Rightarrow> string) \<Rightarrow> string option \<Rightarrow> api \<Rightarrow> string \<Rightarrow> string option \<Rightarrow>
   pydict list \<times> (string \<times> string) list list" where
  "fetch_ads repr env service term api_key =
     (let chave = (case api_key of
                     Some k \<Rightarrow> (if k \<noteq> [] then k else SERPAPI_KEY env)
                   | None \<Rightarrow> SERPAPI_KEY env)
      in if chave = [] then (sample_data, [])
         else
           (let params = [(''q'', term), (''tbm'', ''shop''), (''gl'', ''br''), (''hl'', ''pt''),
                          (''api_key'', chave)]
            in case fetch_try repr service params of
                 Inl e \<Rightarrow> (sample_data, [params])
               | Inr anuncios \<Rightarrow> (anuncios, [params])))"

section \<open>The price key in the words of the specification\<close>





section \<open>The file name in the words of the specification\<close>




section \<open>The currency text in the words of the specification\<close>




section \<open>Two sorts that meet the contract of the library's argsort\<close>

text \<open>
  What the library promises of \<open>argsort\<close> under the default \<open>kind\<close> is that the result
  lists every row number once, by non-decreasing key. A stable sort meets this, and so does
  the sort below that places equal keys in the reverse of their order in the file.
\<close>

definition argsort_stable :: "pyfloat list \<Rightarrow> nat list" where
  "argsort_stable ks = sort_key (\<lambda>i. ks ! i) [0..<length ks]"

definition argsort_rev :: "pyfloat list \<Rightarrow> nat list" where
  "argsort_rev ks = sort_key (\<lambda>i. ks ! i) (rev [0..<length ks])"

section \<open>Properties of storage.py\<close>

subsection \<open>The price key\<close>




















lemma price_to_float_le_inf: "price_to_float w \<le> PosInf"
proof -
  have "price_to_float w = PosInf \<or> (\<exists>q. price_to_float w = Finite q)"
    by (cases w)
       (auto simp: price_to_float_def float_of_match_def Let_def split: option.splits)
  then show ?thesis by (auto simp: less_eq_pyfloat_def)
qed

text \<open>
  Claim C10. \<open>_price_to_float\<close> is defined on every cell value: a value that is not a
  text, such as the NaN of an empty cell, and the empty text give positive infinity, which
  no key exceeds, so the row sorts last.
\<close>

theorem price_to_float_total:
  "\<not> is_str v \<or> v = PStr [] \<Longrightarrow>
   price_to_float v = PosInf \<and> price_to_float w \<le> price_to_float v"
  using price_to_float_le_inf [of w] by (auto simp: price_to_float_def)

theorem price_to_float_total_witness:
  "\<not> is_str (PFloat NaN) \<and> price_to_float (PFloat NaN) = PosInf \<and>
   price_to_float (PStr ''R$ 1.899,00'') \<le> price_to_float (PFloat NaN) \<and>
   convert_column [''''] = [PFloat NaN]"
proof -
  have h: "\<not> is_str (PFloat NaN) \<or> PFloat NaN = PStr []" by simp
  note t = price_to_float_total [OF h, of "PStr ''R$ 1.899,00''"]
  have c: "convert_column [''''] = [PFloat NaN]"
    by (simp add: convert_column_def is_na_def na_values_def int_column_def)
  from t [THEN conjunct1] t [THEN conjunct2] c show ?thesis by simp
qed

subsection \<open>Writing\<close>

text \<open>
  Claim C4. \<open>save_to_csv\<close> on an empty list of records fails with the empty-input error
  (the \<open>ValueError\<close> it raises), and leaves every file as it was: the target is neither
  created nor overwritten.
\<close>

theorem save_to_csv_empty:
  "save_to_csv repr [] filepath files = (Inl ValueError, files)"
  by (simp add: save_to_csv_def)

section \<open>Properties of scraper.py\<close>

lemma sample_data_eq: "sample_data = exemplos @ exemplos @ exemplos @ exemplos @ exemplos"
  by (simp add: sample_data_def numeral_eq_Suc)

lemma SERPAPI_KEY_unset: "SERPAPI_KEY None = []"
  by (simp add: SERPAPI_KEY_def py_strip_def)

text \<open>
  Claim C7. With no usable credential, the parameter absent or empty and the environment
  variable unset or blank, \<open>fetch_ads\<close> returns the fallback sample whatever the term
  is, the same for any two terms, and sends no request.
\<close>

theorem fetch_ads_fallback:
  assumes "api_key = None \<or> api_key = Some []"
    and "SERPAPI_KEY env = []"
  shows "fetch_ads repr env service term api_key = (sample_data, []) \<and>
         fetch_ads repr env service term api_key = fetch_ads repr env service term' api_key"
  using assms by (auto simp: fetch_ads_def)

theorem fetch_ads_fallback_witness:
  "SERPAPI_KEY None = [] \<and>
   fetch_ads (\<lambda>v. []) None (\<lambda>p. Inl RequestException) ''geladeira'' None = (sample_data, []) \<and>
   fetch_ads (\<lambda>v. []) None (\<lambda>p. Inl RequestException) ''geladeira'' None =
   fetch_ads (\<lambda>v. []) None (\<lambda>p. Inl RequestException) ''fogao'' None"
proof -
  have h: "(None :: string option) = None \<or> None = Some []" by simp
  note t = fetch_ads_fallback [OF h SERPAPI_KEY_unset, of "\<lambda>v. []" "\<lambda>p. Inl RequestException"
      "''geladeira''" "''fogao''"]
  from t [THEN conjunct1] t [THEN conjunct2] SERPAPI_KEY_unset show ?thesis by blast
qed
lemma sample_titles:
  "remdups (map (\<lambda>d. get d ''titulo'') sample_data) = map (\<lambda>d. get d ''titulo'') exemplos"
  by (simp add: sample_data_eq exemplos_def get_def)

lemma sample_filenames:
  "remdups (map (\<lambda>(i, d). image_filename i d) (enumerate 1 sample_data)) =
     [Inr ''Geladeira_Consul_Frost_Free_340_litros.jpg'',
      Inr ''Geladeira_Brastemp_Frost_Free_Duplex_375_litros.jpg'',
      Inr ''Geladeira_Electrolux_Frost_Free_Inverse_454_litros.jpg'',
      Inr ''Geladeira_Samsung_Side_by_Side_501_litros.jpg'',
      Inr ''Geladeira_LG_Smart_Inverter_437_litros.jpg'']"
  by (simp add: sample_data_eq exemplos_def image_filename_def get_def py_or_def slugify_def
      slug_char_def strip_underscores_def)

lemma sample_counts: "map (count_list sample_data) exemplos = [5, 5, 5, 5, 5]"
  by (simp add: sample_data_eq exemplos_def)

text \<open>
  Claim C9. The fallback sample \<open>fetch_ads\<close> returns without a credential has exactly 25
  records: the 5 distinct hard-coded listings, in the same order, 5 times over. Each
  listing occurs 5 times, and the 25 records have only 5 distinct titles and only 5
  distinct image file names.
\<close>

theorem sample_data_shape:
  "fst (fetch_ads repr None service term None) = sample_data \<and>
   length sample_data = 25 \<and>
   sample_data = concat (replicate 5 exemplos) \<and>
   length exemplos = 5 \<and> distinct exemplos \<and>
   map (count_list sample_data) exemplos = [5, 5, 5, 5, 5] \<and>
   length (remdups (map (\<lambda>d. get d ''titulo'') sample_data)) = 5 \<and>
   length (remdups (map (\<lambda>(i, d). image_filename i d) (enumerate 1 sample_data))) = 5"
proof -
  have a: "fst (fetch_ads repr None service term None) = sample_data"
    by (simp add: fetch_ads_def SERPAPI_KEY_unset)
  have b: "length sample_data = 25" by (simp add: sample_data_eq exemplos_def)
  have c: "sample_data = concat (replicate 5 exemplos)"
    by (simp add: sample_data_def numeral_eq_Suc)
  have d: "length exemplos = 5" and e: "distinct exemplos" by (simp_all add: exemplos_def)
  have f: "length (remdups (map (\<lambda>d. get d ''titulo'') sample_data)) = 5"
    by (subst sample_titles) (simp add: d)
  have g: "length (remdups (map (\<lambda>(i, d). image_filename i d) (enumerate 1 sample_data))) = 5"
    by (subst sample_filenames) simp
  from a b c d e sample_counts f g show ?thesis by blast
qed

section \<open>Properties of download\_images.py\<close>

text \<open>
  Claim C6. A record whose image URL is empty (or absent) gets a zero-byte file at its
  computed name, no request is sent for it, and the loop goes on with the next record.
\<close>

theorem download_item_no_url:
  assumes "\<not> truthy (get item ''imagem'')"
    and "image_filename idx item = Inr filename"
  shows "download_item net directory idx item w =
           Inr (w\<lparr>disk := (disk w)(path_join directory filename \<mapsto> [])\<rparr>) \<and>
         sent (w\<lparr>disk := (disk w)(path_join directory filename \<mapsto> [])\<rparr>) = sent w \<and>
         download_loop net directory idx (item # items) w =
           download_loop net directory (Suc idx) items
             (w\<lparr>disk := (disk w)(path_join directory filename \<mapsto> [])\<rparr>)"
  using assms by (simp add: download_item_def py_or_def Let_def)

theorem download_item_no_url_witness:
  "\<not> truthy (get [(''titulo'', PStr ''TV''), (''imagem'', PStr '''')] ''imagem'') \<and>
   image_filename 1 [(''titulo'', PStr ''TV''), (''imagem'', PStr '''')] = Inr ''TV.jpg'' \<and>
   download_images (\<lambda>h u. Inr (200, ''bytes''))
     [[(''titulo'', PStr ''TV''), (''imagem'', PStr '''')]] ''imagens''
     \<lparr>disk = Map.empty, dirs = {}, sent = []\<rparr> =
   Inr \<lparr>disk = [''imagens/TV.jpg'' \<mapsto> []], dirs = {''imagens''}, sent = []\<rparr>"
proof -
  let ?item = "[(''titulo'', PStr ''TV''), (''imagem'', PStr '''')]"
  have a: "\<not> truthy (get ?item ''imagem'')" by (simp add: get_def)
  have b: "image_filename 1 ?item = Inr ''TV.jpg''"
    by (simp add: image_filename_def get_def py_or_def slugify_def slug_char_def
        strip_underscores_def)
  note t = download_item_no_url [OF a b, of "\<lambda>h u. Inr (200, ''bytes'')" "''imagens''"
      "\<lparr>disk = Map.empty, dirs = {''imagens''}, sent = []\<rparr>" "[]"]
  have "download_images (\<lambda>h u. Inr (200, ''bytes'')) [?item] ''imagens''
          \<lparr>disk = Map.empty, dirs = {}, sent = []\<rparr> =
        Inr \<lparr>disk = [''imagens/TV.jpg'' \<mapsto> []], dirs = {''imagens''}, sent = []\<rparr>"
    unfolding download_images_def using t [THEN conjunct2, THEN conjunct2]
    by (simp add: path_join_def)
  with a b show ?thesis by blast
qed

subsection \<open>The file name\<close>














subsection \<open>The price text\<close>











lemma comma_not_digit: "\<not> is_digit CHR '',''"
  by (simp add: is_digit_def)









lemma get_missing: "map_of d k = None \<Longrightarrow> get d k = PNone"
  by (simp add: get_def)

lemma py_or_None: "py_or PNone b = b"
  by (simp add: py_or_def)




end
